theory Spec2Isabelle
  imports Complex_Main
begin

section \<open>Python values used by the SIEM core\<close>

text \<open>
  Strings are lists of characters, a character being a code point below 256 (Latin-1);
  text beyond that range is not modelled. \<open>str.lower()\<close> maps the letters \<open>A\<close> to \<open>Z\<close>
  and the code points 192 to 222, except the multiplication sign 215, to the code point
  32 higher.
\<close>

datatype py_error = ValueError | TypeError | AddressNotFoundError

definition lower_char :: "char \<Rightarrow> char" where
  "lower_char c =
     (if (65 \<le> (of_char c :: nat) \<and> (of_char c :: nat) \<le> 90)
         \<or> (192 \<le> (of_char c :: nat) \<and> (of_char c :: nat) \<le> 222
             \<and> (of_char c :: nat) \<noteq> 215)
      then char_of ((of_char c :: nat) + 32) else c)"

definition lower :: "string \<Rightarrow> string" where
  "lower s = map lower_char s"

text \<open>\<open>k in s\<close> on strings: \<open>k\<close> occurs in \<open>s\<close> as a contiguous run.\<close>

fun starts_with :: "string \<Rightarrow> string \<Rightarrow> bool" where
  "starts_with [] s = True"
| "starts_with (k # ks) [] = False"
| "starts_with (k # ks) (c # cs) = (k = c \<and> starts_with ks cs)"

fun str_in :: "string \<Rightarrow> string \<Rightarrow> bool" where
  "str_in k [] = (k = [])"
| "str_in k (c # cs) = (starts_with k (c # cs) \<or> str_in k cs)"

text \<open>
  \<open>s.split(sep)\<close> for a one-character separator: the result is never empty, and an
  empty string gives one empty part.
\<close>

fun split_on :: "char \<Rightarrow> string \<Rightarrow> string list" where
  "split_on sep [] = [[]]"
| "split_on sep (c # cs) =
     (if c = sep then [] # split_on sep cs
      else (case split_on sep cs of
              p # ps \<Rightarrow> (c # p) # ps
            | [] \<Rightarrow> [[c]]))"

text \<open>
  White space: \<open>str.strip()\<close> drops the characters for which \<open>isspace()\<close> holds,
  \<open>int()\<close> a smaller set (it refuses the separators 28 to 31).
\<close>

definition is_space :: "char \<Rightarrow> bool" where
  "is_space c = ((of_char c :: nat) \<in> {9, 10, 11, 12, 13, 28, 29, 30, 31, 32, 133, 160})"

definition is_int_space :: "char \<Rightarrow> bool" where
  "is_int_space c = ((of_char c :: nat) \<in> {9, 10, 11, 12, 13, 32, 133, 160})"

definition strip_with :: "(char \<Rightarrow> bool) \<Rightarrow> string \<Rightarrow> string" where
  "strip_with sp s = rev (dropWhile sp (rev (dropWhile sp s)))"

definition strip :: "string \<Rightarrow> string" where
  "strip s = strip_with is_space s"

text \<open>
  \<open>int(s)\<close> in base ten: surrounding white space is dropped, one sign is allowed, and
  single underscores may separate digits. A string with more than 4300 digits (the
  interpreter's default \<open>int_max_str_digits\<close>) is refused. Every refusal raises
  \<open>ValueError\<close>, here \<open>None\<close>.
\<close>

definition is_digit :: "char \<Rightarrow> bool" where
  "is_digit c = (48 \<le> (of_char c :: nat) \<and> (of_char c :: nat) \<le> 57)"

definition digit_val :: "char \<Rightarrow> nat" where
  "digit_val c = (of_char c :: nat) - 48"

fun digits_acc :: "nat \<Rightarrow> string \<Rightarrow> nat option" where
  "digits_acc n [] = Some n"
| "digits_acc n [c] = (if is_digit c then Some (10 * n + digit_val c) else None)"
| "digits_acc n (c # d # ds) =
     (if is_digit c then digits_acc (10 * n + digit_val c) (d # ds)
      else if c = CHR ''_'' \<and> is_digit d then digits_acc (10 * n + digit_val d) ds
      else None)"

definition digits_value :: "string \<Rightarrow> nat option" where
  "digits_value s =
     (case s of
        [] \<Rightarrow> None
      | c # cs \<Rightarrow> if is_digit c then digits_acc (digit_val c) cs else None)"

definition max_str_digits :: nat where
  "max_str_digits = 4300"

definition py_int :: "string \<Rightarrow> int option" where
  "py_int s =
     (case strip_with is_int_space s of
        [] \<Rightarrow> None
      | c # cs \<Rightarrow>
          (let body = (if c = CHR ''-'' \<or> c = CHR ''+'' then cs else c # cs) in
           if max_str_digits < length (filter is_digit body) then None
           else if c = CHR ''-'' then map_option (\<lambda>n. - int n) (digits_value body)
           else map_option int (digits_value body)))"

text \<open>Truthiness of the optional values the rules test with \<open>if x\<close> and \<open>not x\<close>.\<close>

definition truthy_str :: "string option \<Rightarrow> bool" where
  "truthy_str s = (case s of None \<Rightarrow> False | Some t \<Rightarrow> t \<noteq> [])"

definition truthy_num :: "real option \<Rightarrow> bool" where
  "truthy_num x = (case x of None \<Rightarrow> False | Some v \<Rightarrow> v \<noteq> 0)"

text \<open>\<open>a or b\<close> on an optional string and a default.\<close>

definition or_else :: "string option \<Rightarrow> string option \<Rightarrow> string option" where
  "or_else a b = (if truthy_str a then a else b)"

text \<open>
  The pieces of an f-string before rendering, and the values of the context
  dictionaries. Number and date formatting is kept symbolic: \<open>FFixed d x\<close> is
  \<open>{x:.df}\<close>, \<open>FFloat x\<close> is \<open>{x}\<close>, \<open>FClock t\<close> is \<open>strftime('%H:%M')\<close>, \<open>FDay t\<close> is
  \<open>strftime('%A')\<close>, \<open>FIso t\<close> is \<open>isoformat()\<close>, and \<open>JRound d x\<close> is \<open>round(x, d)\<close>.
\<close>

datatype fpart =
  Lit string | FStr "string option" | FInt int | FFixed nat real | FFloat "real option"
  | FClock int | FDay int | FIso int

datatype jvalue =
  JNone | JStr string | JInt int | JRound nat real | JFmt "fpart list" | JList "jvalue list"

type_synonym fstring = "fpart list"

type_synonym pydict = "(string \<times> jvalue) list"

definition opt_str :: "string option \<Rightarrow> jvalue" where
  "opt_str s = (case s of None \<Rightarrow> JNone | Some t \<Rightarrow> JStr t)"

section \<open>Time\<close>

text \<open>
  A naive \<open>datetime\<close> is the number of microseconds since 1970-01-01T00:00:00, and a
  \<open>timedelta\<close> a number of microseconds. 1970-01-01 was a Thursday, weekday 3 in
  Python's numbering (Monday is 0).
\<close>

type_synonym datetime = int

definition minutes :: "int \<Rightarrow> int" where
  "minutes m = m * 60000000"

definition hours :: "int \<Rightarrow> int" where
  "hours h = h * 3600000000"

definition weekday :: "datetime \<Rightarrow> int" where
  "weekday t = (t div 86400000000 + 3) mod 7"

definition hour :: "datetime \<Rightarrow> int" where
  "hour t = (t mod 86400000000) div 3600000000"

definition total_seconds :: "int \<Rightarrow> real" where
  "total_seconds d = real_of_int d / 1000000"

section \<open>Data model\<close>

text \<open>
  Modelled from the spec: the two persisted classes \<open>LogEntry\<close> and \<open>Alert\<close> of
  \<open>backend.app.models.database\<close>, whose declaration is not among the sources. Their
  columns are the attributes the sources read and write; an attribute that no
  constructor call sets is null.
\<close>

record log_entry =
  entry_id :: "int option"
  timestamp :: datetime
  source_ip :: string
  username :: "string option"
  event_type :: string
  status :: string
  raw_log :: "string option"
  source_file :: "string option"
  country_code :: "string option"
  latitude :: "real option"
  longitude :: "real option"

record alert =
  alert_id :: string
  rule_name :: string
  severity :: string
  alert_description :: fstring
  alert_context :: "pydict option"
  alert_source_ip :: "string option"
  alert_username :: "string option"
  log_entry_id :: "int option"
  triggered_at :: datetime
  acknowledged :: bool
  acknowledged_by :: "string option"
  acknowledged_at :: "datetime option"
  resolved :: bool
  resolved_by :: "string option"
  resolved_at :: "datetime option"
  alert_notes :: "string option"

text \<open>The database session: the rows of the two tables, in insertion order.\<close>

record db =
  log_entries :: "log_entry list"
  alerts :: "alert list"

text \<open>\<open>backend/config/config.py\<close>: the settings the rules read.\<close>

record settings =
  business_hours_start :: int
  business_hours_end :: int
  brute_force_threshold :: int
  brute_force_window_minutes :: int
  ip_blacklist :: string


section \<open>\<open>backend/app/utils/helpers.py\<close>\<close>

definition is_business_hours :: "datetime \<Rightarrow> int \<Rightarrow> int \<Rightarrow> bool" where
  "is_business_hours ts start_hour end_hour =
     (if weekday ts \<ge> 5 then False
      else start_hour \<le> hour ts \<and> hour ts < end_hour)"

section \<open>\<open>backend/app/utils/geolocation.py\<close>\<close>

text \<open>
  The dictionary \<open>get_location\<close> returns. A key the resolver could not fill is
  \<open>None\<close>. Python floats are modelled as real numbers: rounding is not modelled.
\<close>

record location =
  loc_country_code :: "string option"
  loc_latitude :: "real option"
  loc_longitude :: "real option"
  loc_city :: "string option"
  loc_country_name :: "string option"

text \<open>
  The world outside the process. \<open>geoip_reader\<close> is the opened GeoIP2 database, if any:
  its \<open>city\<close> method returns a record or raises. \<open>http_get\<close> is the call to
  \<open>ip-api.com\<close>: it raises, or answers with a status code and a body whose \<open>json()\<close>
  is a dictionary (or raises, \<open>None\<close>).
\<close>

datatype db_outcome = DbFound location | DbRaises py_error

record api_body =
  api_status :: "string option"
  api_location :: location

datatype http_outcome = HttpRaises | HttpResponse int "api_body option"

record geo_env =
  geoip_reader :: "(string \<Rightarrow> db_outcome) option"
  http_get :: "string \<Rightarrow> http_outcome"

text \<open>What a call did to the outside world, in order.\<close>

datatype lookup = DbLookup string | HttpGet string

definition is_private_ip :: "string \<Rightarrow> bool" where
  "is_private_ip ip =
     (let parts = split_on CHR ''.'' ip in
      if length parts \<noteq> 4 then False
      else
        (case py_int (parts ! 0) of
           None \<Rightarrow> False
         | Some first_octet \<Rightarrow>
             (case py_int (parts ! 1) of
                None \<Rightarrow> False
              | Some second_octet \<Rightarrow>
                  if first_octet = 10 then True
                  else if first_octet = 172 \<and> 16 \<le> second_octet \<and> second_octet \<le> 31 then True
                  else if first_octet = 192 \<and> second_octet = 168 then True
                  else if first_octet = 127 then True
                  else False)))"

definition api_fallback ::
  "geo_env \<Rightarrow> string \<Rightarrow> lookup list \<Rightarrow> (py_error + location option) \<times> lookup list" where
  "api_fallback env ip_address sofar =
     (let trace = sofar @ [HttpGet (''http://ip-api.com/json/'' @ ip_address)] in
      case http_get env ip_address of
        HttpRaises \<Rightarrow> (Inr None, trace)
      | HttpResponse status_code body \<Rightarrow>
          if status_code = 200 then
            (case body of
               None \<Rightarrow> (Inr None, trace)
             | Some data \<Rightarrow>
                 if api_status data = Some ''success''
                 then (Inr (Some (api_location data)), trace)
                 else (Inr None, trace))
          else (Inr None, trace))"

definition get_location ::
  "geo_env \<Rightarrow> string \<Rightarrow> (py_error + location option) \<times> lookup list" where
  "get_location env ip_address =
     (if is_private_ip ip_address then (Inr None, [])
      else
        (case geoip_reader env of
           None \<Rightarrow> api_fallback env ip_address []
         | Some city \<Rightarrow>
             (case city ip_address of
                DbFound loc \<Rightarrow> (Inr (Some loc), [DbLookup ip_address])
              | DbRaises e \<Rightarrow>
                  if e = AddressNotFoundError \<or> e = ValueError
                  then api_fallback env ip_address [DbLookup ip_address]
                  else (Inl e, [DbLookup ip_address]))))"

text \<open>
  \<open>math.radians\<close>, \<open>math.sqrt\<close> (which raises on a negative argument) and
  \<open>math.atan2\<close>.
\<close>

definition radians :: "real \<Rightarrow> real" where
  "radians d = d * pi / 180"

definition py_sqrt :: "real \<Rightarrow> py_error + real" where
  "py_sqrt x = (if x < 0 then Inl ValueError else Inr (sqrt x))"

definition atan2 :: "real \<Rightarrow> real \<Rightarrow> real" where
  "atan2 y x =
     (if 0 < x then arctan (y / x)
      else if x < 0 \<and> 0 \<le> y then arctan (y / x) + pi
      else if x < 0 \<and> y < 0 then arctan (y / x) - pi
      else if 0 < y then pi / 2
      else if y < 0 then - (pi / 2)
      else 0)"

definition haversine_a :: "real \<Rightarrow> real \<Rightarrow> real \<Rightarrow> real \<Rightarrow> real" where
  "haversine_a lat1 lon1 lat2 lon2 =
     (let lat1_rad = radians lat1;
          lat2_rad = radians lat2;
          delta_lat = radians (lat2 - lat1);
          delta_lon = radians (lon2 - lon1)
      in (sin (delta_lat / 2))\<^sup>2 + cos lat1_rad * cos lat2_rad * (sin (delta_lon / 2))\<^sup>2)"

text \<open>\<open>c = 2 * atan2(sqrt(a), sqrt(1 - a))\<close>, the last step but one of \<open>calculate_distance\<close>.\<close>

definition central_angle :: "real \<Rightarrow> py_error + real" where
  "central_angle a =
     (case py_sqrt a of
        Inl e \<Rightarrow> Inl e
      | Inr sa \<Rightarrow>
          (case py_sqrt (1 - a) of
             Inl e \<Rightarrow> Inl e
           | Inr sb \<Rightarrow> Inr (2 * atan2 sa sb)))"

definition calculate_distance :: "real \<Rightarrow> real \<Rightarrow> real \<Rightarrow> real \<Rightarrow> py_error + real" where
  "calculate_distance lat1 lon1 lat2 lon2 =
     (let R = 6371;
          a = haversine_a lat1 lon1 lat2 lon2
      in case central_angle a of
           Inl e \<Rightarrow> Inl e
         | Inr c \<Rightarrow> Inr (R * c))"

section \<open>\<open>backend/app/detection/rules.py\<close>\<close>

text \<open>What a rule's \<open>check\<close> returns when it triggers.\<close>

record detection =
  description :: fstring
  det_context :: pydict

text \<open>
  \<open>db.query(Alert).filter(...).first()\<close>: the first stored alert that satisfies the
  filter. The rules only test whether there is one.
\<close>

definition first_alert :: "(alert \<Rightarrow> bool) \<Rightarrow> db \<Rightarrow> alert option" where
  "first_alert flt d = find flt (alerts d)"

subsection \<open>\<open>BruteForceDetectionRule\<close>\<close>

definition failed_count_query :: "log_entry \<Rightarrow> datetime \<Rightarrow> db \<Rightarrow> int" where
  "failed_count_query log_entry time_window_start d =
     int (length (filter
       (\<lambda>l. source_ip l = source_ip log_entry
            \<and> status l = ''failed''
            \<and> event_type l = ''login''
            \<and> timestamp l \<ge> time_window_start
            \<and> timestamp l \<le> timestamp log_entry)
       (log_entries d)))"

definition brute_force_check :: "settings \<Rightarrow> log_entry \<Rightarrow> db \<Rightarrow> detection option" where
  "brute_force_check cfg log_entry d =
     (if status log_entry \<noteq> ''failed'' \<or> event_type log_entry \<noteq> ''login'' then None
      else if source_ip log_entry = [] then None
      else
        (let time_window_start =
               timestamp log_entry - minutes (brute_force_window_minutes cfg);
             failed_count = failed_count_query log_entry time_window_start d
         in if failed_count \<ge> brute_force_threshold cfg then
              (let recent_alert = first_alert
                     (\<lambda>a. rule_name a = ''brute_force_login''
                          \<and> alert_source_ip a = Some (source_ip log_entry)
                          \<and> triggered_at a \<ge> time_window_start
                          \<and> resolved a = False) d
               in if recent_alert = None then
                    Some \<lparr>description =
                            [Lit ''Brute-force login attempt detected from '',
                             FStr (Some (source_ip log_entry)), Lit ''. '',
                             FInt failed_count, Lit '' failed attempts in '',
                             FInt (brute_force_window_minutes cfg), Lit '' minutes.''],
                          det_context =
                            [(''source_ip'', JStr (source_ip log_entry)),
                             (''failed_attempts'', JInt failed_count),
                             (''time_window_minutes'', JInt (brute_force_window_minutes cfg)),
                             (''affected_users'',
                                (if truthy_str (username log_entry)
                                 then JList [opt_str (username log_entry)] else JList []))]\<rparr>
                  else None)
            else None))"

subsection \<open>\<open>ImpossibleTravelDetectionRule\<close>\<close>

text \<open>
  \<open>order_by(LogEntry.timestamp.desc()).first()\<close>: a row with the greatest timestamp.
  Among rows with the same timestamp the database is free to choose; the model takes
  the one stored first.
\<close>

fun newest :: "log_entry list \<Rightarrow> log_entry option" where
  "newest [] = None"
| "newest (l # ls) =
     (case newest ls of
        None \<Rightarrow> Some l
      | Some m \<Rightarrow> if timestamp l < timestamp m then Some m else Some l)"

definition previous_login_query :: "log_entry \<Rightarrow> datetime \<Rightarrow> db \<Rightarrow> log_entry option" where
  "previous_login_query log_entry time_window_start d =
     newest (filter
       (\<lambda>l. username l = username log_entry
            \<and> status l = ''success''
            \<and> event_type l = ''login''
            \<and> timestamp l \<ge> time_window_start
            \<and> timestamp l < timestamp log_entry
            \<and> source_ip l \<noteq> source_ip log_entry
            \<and> latitude l \<noteq> None)
       (log_entries d))"

definition location_text :: "string option \<Rightarrow> real option \<Rightarrow> real option \<Rightarrow> fstring" where
  "location_text cc lat lon = [FStr cc, Lit '' ('', FFloat lat, Lit '', '', FFloat lon, Lit '')'']"

definition impossible_travel_check ::
  "geo_env \<Rightarrow> log_entry \<Rightarrow> db \<Rightarrow> py_error + detection option" where
  "impossible_travel_check env log_entry d =
     (if status log_entry \<noteq> ''success'' \<or> event_type log_entry \<noteq> ''login'' then Inr None
      else if \<not> truthy_str (username log_entry) \<or> source_ip log_entry = [] then Inr None
      else
        (case fst (get_location env (source_ip log_entry)) of
           Inl err \<Rightarrow> Inl err
         | Inr None \<Rightarrow> Inr None
         | Inr (Some current_location) \<Rightarrow>
             if \<not> truthy_num (loc_latitude current_location) then Inr None
             else
               (let time_window_start = timestamp log_entry - hours 1 in
                case previous_login_query log_entry time_window_start d of
                  None \<Rightarrow> Inr None
                | Some previous_login \<Rightarrow>
                    if truthy_num (latitude previous_login)
                       \<and> truthy_num (longitude previous_login)
                    then
                      (case (latitude previous_login, longitude previous_login,
                             loc_latitude current_location, loc_longitude current_location) of
                         (Some lat1, Some lon1, Some lat2, Some lon2) \<Rightarrow>
                           (case calculate_distance lat1 lon1 lat2 lon2 of
                              Inl err \<Rightarrow> Inl err
                            | Inr distance \<Rightarrow>
                                (let time_diff = timestamp log_entry - timestamp previous_login;
                                     hours_diff = total_seconds time_diff / 3600;
                                     max_realistic_speed = 800;
                                     min_required_hours = distance / max_realistic_speed
                                 in if distance \<ge> 1000 \<and> hours_diff < min_required_hours then
                                      (let recent_alert = first_alert
                                             (\<lambda>a. rule_name a = ''impossible_travel''
                                                  \<and> alert_username a = username log_entry
                                                  \<and> triggered_at a \<ge> time_window_start
                                                  \<and> resolved a = False) d
                                       in if recent_alert = None then
                                            Inr (Some
                                              \<lparr>description =
                                                 [Lit ''Impossible travel detected for user '',
                                                  FStr (username log_entry),
                                                  Lit ''. Login from '',
                                                  FStr (Some (source_ip previous_login)),
                                                  Lit '' ('', FStr (country_code previous_login),
                                                  Lit '') to '',
                                                  FStr (Some (source_ip log_entry)),
                                                  Lit '' ('',
                                                  FStr (loc_country_code current_location),
                                                  Lit '') covering '', FFixed 0 distance,
                                                  Lit '' km in '', FFixed 2 hours_diff,
                                                  Lit '' hours.''],
                                               det_context =
                                                 [(''username'', opt_str (username log_entry)),
                                                  (''previous_ip'',
                                                     JStr (source_ip previous_login)),
                                                  (''previous_location'',
                                                     JFmt (location_text
                                                       (country_code previous_login)
                                                       (latitude previous_login)
                                                       (longitude previous_login))),
                                                  (''current_ip'', JStr (source_ip log_entry)),
                                                  (''current_location'',
                                                     JFmt (location_text
                                                       (loc_country_code current_location)
                                                       (loc_latitude current_location)
                                                       (loc_longitude current_location))),
                                                  (''distance_km'', JRound 2 distance),
                                                  (''time_hours'', JRound 2 hours_diff),
                                                  (''previous_timestamp'',
                                                     JFmt [FIso (timestamp previous_login)])]\<rparr>)
                                          else Inr None)
                                    else Inr None))
                       | _ \<Rightarrow> Inl TypeError)
                    else Inr None)))"

subsection \<open>\<open>BusinessHoursDetectionRule\<close>\<close>

definition hours_text :: "settings \<Rightarrow> fstring" where
  "hours_text cfg =
     [FInt (business_hours_start cfg), Lit '':00 - '', FInt (business_hours_end cfg), Lit '':00'']"

definition business_hours_check :: "settings \<Rightarrow> log_entry \<Rightarrow> db \<Rightarrow> detection option" where
  "business_hours_check cfg log_entry d =
     (if status log_entry \<noteq> ''success'' \<or> event_type log_entry \<noteq> ''login'' then None
      else if is_business_hours (timestamp log_entry)
                (business_hours_start cfg) (business_hours_end cfg) then None
      else if weekday (timestamp log_entry) \<ge> 5 then None
      else
        (let time_window_start = timestamp log_entry - hours 1;
             recent_alert = first_alert
               (\<lambda>a. rule_name a = ''login_outside_business_hours''
                    \<and> alert_username a = username log_entry
                    \<and> alert_source_ip a = Some (source_ip log_entry)
                    \<and> triggered_at a \<ge> time_window_start
                    \<and> resolved a = False) d
         in if recent_alert = None then
              Some \<lparr>description =
                      [Lit ''Login outside business hours detected for user '',
                       FStr (username log_entry), Lit '' from '',
                       FStr (Some (source_ip log_entry)), Lit '' at '',
                       FClock (timestamp log_entry), Lit '' (Business hours: '']
                      @ hours_text cfg @ [Lit '').''],
                    det_context =
                      [(''username'', opt_str (username log_entry)),
                       (''source_ip'', JStr (source_ip log_entry)),
                       (''login_time'', JFmt [FIso (timestamp log_entry)]),
                       (''business_hours'', JFmt (hours_text cfg)),
                       (''day_of_week'', JFmt [FDay (timestamp log_entry)])]\<rparr>
            else None))"

subsection \<open>\<open>PrivilegeEscalationDetectionRule\<close>\<close>

definition escalation_keywords :: "string list" where
  "escalation_keywords =
     [''sudo'', ''su'', ''admin'', ''root'', ''elevate'', ''privilege'',
      ''runas'', ''impersonate'', ''escalate'']"

definition escalation_event_types :: "string list" where
  "escalation_event_types = [''privilege_escalation'', ''admin_access'', ''sudo'', ''su'']"

text \<open>\<open>s[:500]\<close>, and \<open>raw_log[:500] if raw_log else None\<close>.\<close>

definition raw_log_prefix :: "string option \<Rightarrow> jvalue" where
  "raw_log_prefix r = (if truthy_str r then (case r of Some t \<Rightarrow> JStr (take 500 t) | None \<Rightarrow> JNone) else JNone)"

text \<open>
  The loop over the keywords. A keyword that occurs in the lowered log line runs the
  query for a recent alert; when there is one, the loop goes on to the next keyword.
\<close>

fun keyword_loop :: "string list \<Rightarrow> string \<Rightarrow> string \<Rightarrow> log_entry \<Rightarrow> db \<Rightarrow> detection option" where
  "keyword_loop [] log_lower raw log_entry d = None"
| "keyword_loop (keyword # rest) log_lower raw log_entry d =
     (if str_in keyword log_lower then
        (let time_window_start = timestamp log_entry - minutes 30;
             recent_alert = first_alert
               (\<lambda>a. rule_name a = ''privilege_escalation''
                    \<and> alert_username a = username log_entry
                    \<and> triggered_at a \<ge> time_window_start
                    \<and> resolved a = False) d
         in if recent_alert = None then
              Some \<lparr>description =
                      [Lit ''Potential privilege escalation detected for user '',
                       FStr (username log_entry), Lit '' from '',
                       FStr (Some (source_ip log_entry)), Lit ''. Keyword: '',
                       FStr (Some keyword)],
                    det_context =
                      [(''username'', opt_str (username log_entry)),
                       (''source_ip'', JStr (source_ip log_entry)),
                       (''keyword'', JStr keyword),
                       (''event_type'', JStr (event_type log_entry)),
                       (''status'', JStr (status log_entry)),
                       (''raw_log'', JStr (take 500 raw))]\<rparr>
            else keyword_loop rest log_lower raw log_entry d)
      else keyword_loop rest log_lower raw log_entry d)"

definition privilege_escalation_check :: "log_entry \<Rightarrow> db \<Rightarrow> detection option" where
  "privilege_escalation_check log_entry d =
     (if event_type log_entry \<in> set escalation_event_types then
        Some \<lparr>description =
                [Lit ''Privilege escalation attempt detected for user '',
                 FStr (username log_entry), Lit '' from '',
                 FStr (Some (source_ip log_entry))],
              det_context =
                [(''username'', opt_str (username log_entry)),
                 (''source_ip'', JStr (source_ip log_entry)),
                 (''event_type'', JStr (event_type log_entry)),
                 (''status'', JStr (status log_entry)),
                 (''raw_log'', raw_log_prefix (raw_log log_entry))]\<rparr>
      else
        (case raw_log log_entry of
           None \<Rightarrow> None
         | Some raw \<Rightarrow>
             if raw = [] then None
             else keyword_loop escalation_keywords (lower raw) raw log_entry d))"

subsection \<open>\<open>BlacklistIPDetectionRule\<close>\<close>

definition blacklist :: "settings \<Rightarrow> string set" where
  "blacklist cfg =
     set (filter (\<lambda>ip. ip \<noteq> []) (map strip (split_on CHR '','' (ip_blacklist cfg))))"

definition blacklist_check :: "settings \<Rightarrow> log_entry \<Rightarrow> db \<Rightarrow> detection option" where
  "blacklist_check cfg log_entry d =
     (if source_ip log_entry = [] then None
      else if source_ip log_entry \<in> blacklist cfg then
        (let time_window_start = timestamp log_entry - hours 1;
             recent_alert = first_alert
               (\<lambda>a. rule_name a = ''blacklisted_ip''
                    \<and> alert_source_ip a = Some (source_ip log_entry)
                    \<and> triggered_at a \<ge> time_window_start
                    \<and> resolved a = False) d
         in if recent_alert = None then
              Some \<lparr>description =
                      [Lit ''Activity detected from blacklisted IP address: '',
                       FStr (Some (source_ip log_entry))],
                    det_context =
                      [(''source_ip'', JStr (source_ip log_entry)),
                       (''username'', opt_str (username log_entry)),
                       (''event_type'', JStr (event_type log_entry)),
                       (''status'', JStr (status log_entry)),
                       (''country_code'', opt_str (country_code log_entry)),
                       (''raw_log'', raw_log_prefix (raw_log log_entry))]\<rparr>
            else None)
      else None)"

subsection \<open>\<open>DetectionEngine\<close>\<close>

text \<open>
  One alert dictionary per rule that triggered, in the order of the rule list. A rule
  that raises is reported and skipped.
\<close>

record alert_data =
  ad_rule_name :: string
  ad_severity :: string
  ad_description :: fstring
  ad_context :: pydict

definition rule_output :: "string \<Rightarrow> string \<Rightarrow> detection option \<Rightarrow> alert_data list" where
  "rule_output name sev result =
     (case result of
        None \<Rightarrow> []
      | Some r \<Rightarrow> [\<lparr>ad_rule_name = name, ad_severity = sev,
                     ad_description = description r, ad_context = det_context r\<rparr>])"

definition analyze :: "settings \<Rightarrow> geo_env \<Rightarrow> log_entry \<Rightarrow> db \<Rightarrow> alert_data list" where
  "analyze cfg env log_entry d =
     rule_output ''brute_force_login'' ''High'' (brute_force_check cfg log_entry d)
     @ rule_output ''impossible_travel'' ''Critical''
         (case impossible_travel_check env log_entry d of Inl e \<Rightarrow> None | Inr r \<Rightarrow> r)
     @ rule_output ''login_outside_business_hours'' ''Medium''
         (business_hours_check cfg log_entry d)
     @ rule_output ''privilege_escalation'' ''High'' (privilege_escalation_check log_entry d)
     @ rule_output ''blacklisted_ip'' ''Critical'' (blacklist_check cfg log_entry d)"

section \<open>\<open>backend/app/alerting/alert_manager.py\<close>\<close>

text \<open>
  \<open>generate_alert_id()\<close> and \<open>datetime.utcnow()\<close> are inputs of the model: the fresh
  identifier \<open>new_id\<close> and the clock reading \<open>now\<close>. \<open>json.dumps\<close> is not modelled: the
  stored context is the dictionary itself, null when the dictionary is empty.
\<close>

definition create_alert ::
  "string \<Rightarrow> string \<Rightarrow> fstring \<Rightarrow> pydict \<Rightarrow> db \<Rightarrow> log_entry option
     \<Rightarrow> string option \<Rightarrow> string option \<Rightarrow> string \<Rightarrow> datetime \<Rightarrow> db \<times> alert" where
  "create_alert rule sev descr ctx d log_entry src_ip user new_id now =
     (let src_ip' = (case log_entry of
                       Some e \<Rightarrow> or_else src_ip (Some (source_ip e))
                     | None \<Rightarrow> src_ip);
          user' = (case log_entry of
                     Some e \<Rightarrow> or_else user (username e)
                   | None \<Rightarrow> user);
          log_entry_id' = (case log_entry of Some e \<Rightarrow> entry_id e | None \<Rightarrow> None);
          a = \<lparr>alert_id = new_id,
               rule_name = rule,
               severity = sev,
               alert_description = descr,
               alert_context = (if ctx \<noteq> [] then Some ctx else None),
               alert_source_ip = src_ip',
               alert_username = user',
               log_entry_id = log_entry_id',
               triggered_at = now,
               acknowledged = False,
               acknowledged_by = None,
               acknowledged_at = None,
               resolved = False,
               resolved_by = None,
               resolved_at = None,
               alert_notes = None\<rparr>
      in (d\<lparr>alerts := alerts d @ [a]\<rparr>, a))"

text \<open>
  \<open>db.query(Alert).filter(Alert.alert_id == alert_id).first()\<close> followed by assignments
  to the row found: the first alert with that identifier is replaced by its update.
\<close>

fun update_first :: "(alert \<Rightarrow> bool) \<Rightarrow> (alert \<Rightarrow> alert) \<Rightarrow> alert list \<Rightarrow> alert list" where
  "update_first flt f [] = []"
| "update_first flt f (a # as) = (if flt a then f a # as else a # update_first flt f as)"

definition analyst_or_system :: "string option \<Rightarrow> string option" where
  "analyst_or_system analyst = or_else analyst (Some ''System'')"

definition acknowledge :: "string option \<Rightarrow> datetime \<Rightarrow> alert \<Rightarrow> alert" where
  "acknowledge analyst now a =
     a\<lparr>acknowledged := True,
       acknowledged_by := analyst_or_system analyst,
       acknowledged_at := Some now\<rparr>"

definition acknowledge_alert ::
  "string \<Rightarrow> db \<Rightarrow> string option \<Rightarrow> datetime \<Rightarrow> db \<times> alert option" where
  "acknowledge_alert aid d analyst now =
     (let d' = d\<lparr>alerts := update_first (\<lambda>a. alert_id a = aid) (acknowledge analyst now) (alerts d)\<rparr>
      in (d', first_alert (\<lambda>a. alert_id a = aid) d'))"

text \<open>
  \<open>resolve_alert\<close> reads the clock for \<open>resolved_at\<close> and, when the alert has no
  \<open>acknowledged_at\<close>, a second time for it: \<open>now\<close> and \<open>now2\<close>.
\<close>

definition resolve :: "string option \<Rightarrow> datetime \<Rightarrow> datetime \<Rightarrow> alert \<Rightarrow> alert" where
  "resolve analyst now now2 a =
     (let a1 = a\<lparr>resolved := True,
                 acknowledged := True,
                 resolved_by := analyst_or_system analyst,
                 resolved_at := Some now\<rparr>
      in if acknowledged_at a1 = None
         then a1\<lparr>acknowledged_at := Some now2, acknowledged_by := analyst_or_system analyst\<rparr>
         else a1)"

definition resolve_alert ::
  "string \<Rightarrow> db \<Rightarrow> string option \<Rightarrow> datetime \<Rightarrow> datetime \<Rightarrow> db \<times> alert option" where
  "resolve_alert aid d analyst now now2 =
     (let d' = d\<lparr>alerts := update_first (\<lambda>a. alert_id a = aid) (resolve analyst now now2) (alerts d)\<rparr>
      in (d', first_alert (\<lambda>a. alert_id a = aid) d'))"

section \<open>\<open>backend/app/parsing/log_parser.py\<close>\<close>

text \<open>
  The regular-expression engine and the date library are inputs of the model:
  \<open>match_patterns\<close> gives the \<open>groupdict()\<close> of the first pattern of \<open>PATTERNS\<close> found in
  the line, \<open>ip_search\<close> the first dotted quad found by the fallback expression,
  \<open>parse_timestamp\<close> is the helper of that name and \<open>isoformat\<close> the method of that name.
\<close>

record parser_env =
  match_patterns :: "string \<Rightarrow> (string \<times> string) list option"
  ip_search :: "string \<Rightarrow> string option"
  parse_timestamp :: "string \<Rightarrow> datetime option"
  isoformat :: "datetime \<Rightarrow> string"

definition dict_set :: "(string \<times> string) list \<Rightarrow> string \<Rightarrow> string \<Rightarrow> (string \<times> string) list" where
  "dict_set data k v = (k, v) # filter (\<lambda>kv. fst kv \<noteq> k) data"

definition dict_get :: "(string \<times> string) list \<Rightarrow> string \<Rightarrow> string \<Rightarrow> string" where
  "dict_get data k dflt = (case map_of data k of Some v \<Rightarrow> v | None \<Rightarrow> dflt)"

definition extract_fields ::
  "parser_env \<Rightarrow> datetime \<Rightarrow> string \<Rightarrow> (string \<times> string) list option" where
  "extract_fields penv now log_line =
     (case match_patterns penv log_line of
        Some data \<Rightarrow>
          (case map_of data ''event'' of
             None \<Rightarrow> Some data
           | Some ev \<Rightarrow>
               if map_of data ''event_type'' \<noteq> None then Some data
               else
                 (let event_value = lower ev in
                  if event_value \<in> set [''accepted'', ''success''] then
                    Some (dict_set (dict_set data ''status'' ''success'') ''event_type'' ''login'')
                  else if event_value \<in> set [''failed'', ''denied'', ''rejected''] then
                    Some (dict_set (dict_set data ''status'' ''failed'') ''event_type'' ''login'')
                  else Some (dict_set data ''event_type'' event_value)))
      | None \<Rightarrow>
          (case ip_search penv log_line of
             Some ip \<Rightarrow>
               Some [(''source_ip'', ip), (''timestamp'', isoformat penv now),
                     (''username'', []), (''event_type'', ''unknown''),
                     (''status'', ''unknown'')]
           | None \<Rightarrow> None))"

definition parse_line ::
  "parser_env \<Rightarrow> geo_env \<Rightarrow> datetime \<Rightarrow> string \<Rightarrow> string option
     \<Rightarrow> py_error + log_entry option" where
  "parse_line penv env now line src_file =
     (let log_line = strip line in
      if log_line = [] then Inr None
      else
        (case extract_fields penv now log_line of
           None \<Rightarrow> Inr None
         | Some parsed_data \<Rightarrow>
             if parsed_data = [] then Inr None
             else
               (let ts = (case map_of parsed_data ''timestamp'' of
                            Some t \<Rightarrow> (case parse_timestamp penv t of Some v \<Rightarrow> v | None \<Rightarrow> now)
                          | None \<Rightarrow> now);
                    src_ip = dict_get parsed_data ''source_ip'' [];
                    user = dict_get parsed_data ''username'' [];
                    ev_type = dict_get parsed_data ''event_type''
                                (dict_get parsed_data ''event'' ''authentication'');
                    stat = dict_get parsed_data ''status'' ''unknown'';
                    located = (if src_ip \<noteq> [] then fst (get_location env src_ip) else Inr None)
                in case located of
                     Inl err \<Rightarrow> Inl err
                   | Inr location_data \<Rightarrow>
                       Inr (Some
                         \<lparr>entry_id = None,
                          timestamp = ts,
                          source_ip = src_ip,
                          username = Some user,
                          event_type = lower ev_type,
                          status = lower stat,
                          raw_log = Some log_line,
                          source_file = src_file,
                          country_code = (case location_data of
                                            Some l \<Rightarrow> loc_country_code l | None \<Rightarrow> None),
                          latitude = (case location_data of
                                        Some l \<Rightarrow> loc_latitude l | None \<Rightarrow> None),
                          longitude = (case location_data of
                                         Some l \<Rightarrow> loc_longitude l | None \<Rightarrow> None)\<rparr>))))"

section \<open>\<open>backend/app/ingestion/ingestion_service.py\<close>\<close>

text \<open>
  \<open>db.add\<close> and \<open>db.flush\<close> append the entry with the next integer identity. The
  alerts of one entry are created in the order the engine returned them; \<open>fresh n\<close> is
  the identifier \<open>generate_alert_id\<close> returns for the alert stored at position \<open>n\<close>.
\<close>

definition add_and_flush :: "log_entry \<Rightarrow> db \<Rightarrow> db \<times> log_entry" where
  "add_and_flush log_entry d =
     (let stored = log_entry\<lparr>entry_id := Some (int (length (log_entries d)) + 1)\<rparr>
      in (d\<lparr>log_entries := log_entries d @ [stored]\<rparr>, stored))"

fun create_alerts :: "(nat \<Rightarrow> string) \<Rightarrow> datetime \<Rightarrow> log_entry \<Rightarrow> alert_data list \<Rightarrow> db \<Rightarrow> db" where
  "create_alerts fresh now log_entry [] d = d"
| "create_alerts fresh now log_entry (ad # ads) d =
     create_alerts fresh now log_entry ads
       (fst (create_alert (ad_rule_name ad) (ad_severity ad) (ad_description ad) (ad_context ad)
               d (Some log_entry) None None (fresh (length (alerts d))) now))"

definition store_and_detect ::
  "settings \<Rightarrow> geo_env \<Rightarrow> (nat \<Rightarrow> string) \<Rightarrow> datetime \<Rightarrow> log_entry \<Rightarrow> db
     \<Rightarrow> db \<times> log_entry \<times> nat" where
  "store_and_detect cfg env fresh now log_entry d =
     (let (d1, stored) = add_and_flush log_entry d;
          detected_alerts = analyze cfg env stored d1
      in (create_alerts fresh now stored detected_alerts d1, stored, length detected_alerts))"

text \<open>The request body of \<open>/api/logs/single\<close> (\<open>LogEntryRequest\<close>) as a dictionary.\<close>

record log_data =
  req_timestamp :: "string option"
  req_source_ip :: string
  req_username :: "string option"
  req_event_type :: string
  req_status :: string
  req_raw_log :: "string option"

record ingest_result =
  ingested :: nat
  alerts_generated :: nat
  result_log_entry_id :: "int option"

definition ingest_single_log ::
  "settings \<Rightarrow> parser_env \<Rightarrow> geo_env \<Rightarrow> (nat \<Rightarrow> string) \<Rightarrow> datetime \<Rightarrow> log_data \<Rightarrow> db
     \<Rightarrow> py_error + (db \<times> ingest_result)" where
  "ingest_single_log cfg penv env fresh now data d =
     (let ts = (case req_timestamp data of
                  Some t \<Rightarrow> (case parse_timestamp penv t of Some v \<Rightarrow> v | None \<Rightarrow> now)
                | None \<Rightarrow> now);
          src_ip = req_source_ip data;
          located = (if src_ip \<noteq> [] then fst (get_location env src_ip) else Inr None)
      in case located of
           Inl err \<Rightarrow> Inl err
         | Inr location_data \<Rightarrow>
             (let log_entry =
                    \<lparr>entry_id = None,
                     timestamp = ts,
                     source_ip = src_ip,
                     username = req_username data,
                     event_type = req_event_type data,
                     status = req_status data,
                     raw_log = req_raw_log data,
                     source_file = None,
                     country_code = (case location_data of
                                       Some l \<Rightarrow> loc_country_code l | None \<Rightarrow> None),
                     latitude = (case location_data of
                                   Some l \<Rightarrow> loc_latitude l | None \<Rightarrow> None),
                     longitude = (case location_data of
                                    Some l \<Rightarrow> loc_longitude l | None \<Rightarrow> None)\<rparr>;
                  (d', stored, n) = store_and_detect cfg env fresh now log_entry d
              in Inr (d', \<lparr>ingested = 1, alerts_generated = n,
                           result_log_entry_id = entry_id stored\<rparr>)))"

text \<open>
  \<open>ingest_logs_from_text\<close>: blank lines and lines the parser rejects are skipped; an
  exception of the parser ends the call. \<open>ingest_logs_from_file\<close> stores the entries of
  \<open>parse_file\<close>, which are those of \<open>parse_line\<close> on the lines that did not raise.
\<close>

fun ingest_lines ::
  "settings \<Rightarrow> parser_env \<Rightarrow> geo_env \<Rightarrow> (nat \<Rightarrow> string) \<Rightarrow> datetime \<Rightarrow> string option
     \<Rightarrow> string list \<Rightarrow> db \<Rightarrow> nat \<Rightarrow> nat \<Rightarrow> py_error + (db \<times> nat \<times> nat)" where
  "ingest_lines cfg penv env fresh now src_file [] d n_parsed n_alerts =
     Inr (d, n_parsed, n_alerts)"
| "ingest_lines cfg penv env fresh now src_file (line # rest) d n_parsed n_alerts =
     (if strip line = [] then
        ingest_lines cfg penv env fresh now src_file rest d n_parsed n_alerts
      else
        (case parse_line penv env now line src_file of
           Inl err \<Rightarrow> Inl err
         | Inr None \<Rightarrow> ingest_lines cfg penv env fresh now src_file rest d n_parsed n_alerts
         | Inr (Some log_entry) \<Rightarrow>
             (let (d', stored, n) = store_and_detect cfg env fresh now log_entry d
              in ingest_lines cfg penv env fresh now src_file rest d'
                   (n_parsed + 1) (n_alerts + n))))"

definition ingest_logs_from_text ::
  "settings \<Rightarrow> parser_env \<Rightarrow> geo_env \<Rightarrow> (nat \<Rightarrow> string) \<Rightarrow> datetime \<Rightarrow> string list
     \<Rightarrow> string option \<Rightarrow> db \<Rightarrow> py_error + (db \<times> nat \<times> nat)" where
  "ingest_logs_from_text cfg penv env fresh now log_lines src_file d =
     ingest_lines cfg penv env fresh now src_file log_lines d 0 0"

text \<open>\<open>s == s.lower()\<close>: the string has no upper-case letter.\<close>

definition is_lowercase :: "string \<Rightarrow> bool" where
  "is_lowercase s = (lower s = s)"

section \<open>Alert lifecycle\<close>

text \<open>
  The stores the program can reach from an empty database by storing entries and by
  the three operations of the alert manager, with any arguments.
\<close>

inductive reachable :: "db \<Rightarrow> bool" where
  start: "reachable \<lparr>log_entries = [], alerts = []\<rparr>"
| after_store: "reachable d \<Longrightarrow> reachable (fst (add_and_flush log_entry d))"
| after_create:
    "reachable d \<Longrightarrow>
       reachable (fst (create_alert rule sev descr ctx d log_entry src_ip user new_id now))"
| after_acknowledge:
    "reachable d \<Longrightarrow> reachable (fst (acknowledge_alert aid d analyst now))"
| after_resolve:
    "reachable d \<Longrightarrow> reachable (fst (resolve_alert aid d analyst now now2))"

text \<open>The invariant the induction carries: it also says that an open alert has no
  acknowledgement time, which is what \<open>resolve_alert\<close> tests.\<close>

definition lifecycle_ok :: "alert \<Rightarrow> bool" where
  "lifecycle_ok a =
     ((resolved a \<longrightarrow> acknowledged a)
      \<and> (resolved a \<longrightarrow> resolved_at a \<noteq> None)
      \<and> (acknowledged a \<longleftrightarrow> acknowledged_at a \<noteq> None))"

section \<open>Scenarios\<close>

text \<open>
  Concrete inputs, after the scenarios of the specification. Times are on
  2024-05-01 (a Wednesday): 10:00:00 is 1714557600 seconds after the epoch.
\<close>

definition entry :: "int \<Rightarrow> datetime \<Rightarrow> string \<Rightarrow> string \<Rightarrow> string \<Rightarrow> string \<Rightarrow> log_entry" where
  "entry n ts ip user etype st =
     \<lparr>entry_id = Some n, timestamp = ts, source_ip = ip, username = Some user,
      event_type = etype, status = st, raw_log = None, source_file = None,
      country_code = None, latitude = None, longitude = None\<rparr>"

definition empty_db :: db where
  "empty_db = \<lparr>log_entries = [], alerts = []\<rparr>"






text \<open>One open alert with identifier \<open>a1\<close>, created at time 100.\<close>

definition one_alert_db :: db where
  "one_alert_db =
     fst (create_alert ''brute_force_login'' ''High'' [Lit ''Brute-force login attempt'']
            [(''source_ip'', JStr ''203.0.113.7'')] empty_db None
            (Some ''203.0.113.7'') None ''a1'' 100)"

text \<open>
  A resolver without a database whose HTTP call fails; one whose database raises
  \<open>AddressNotFoundError\<close>; and one whose database raises \<open>TypeError\<close>, as the GeoIP2
  reader does when \<open>city\<close> is called on a database of another type.
\<close>

definition offline_env :: geo_env where
  "offline_env = \<lparr>geoip_reader = None, http_get = (\<lambda>ip. HttpRaises)\<rparr>"

definition unknown_address_env :: geo_env where
  "unknown_address_env =
     \<lparr>geoip_reader = Some (\<lambda>ip. DbRaises AddressNotFoundError), http_get = (\<lambda>ip. HttpRaises)\<rparr>"

definition wrong_database_env :: geo_env where
  "wrong_database_env =
     \<lparr>geoip_reader = Some (\<lambda>ip. DbRaises TypeError), http_get = (\<lambda>ip. HttpRaises)\<rparr>"

text \<open>
  Two logins of \<open>alice\<close> half an hour apart: from 60 N 102 E at 12:00:00, then from an
  address the resolver places on the equator, at 0 N 78 W.
\<close>

definition equator :: location where
  "equator = \<lparr>loc_country_code = Some ''EC'', loc_latitude = Some 0, loc_longitude = Some (- 78),
              loc_city = None, loc_country_name = Some ''Ecuador''\<rparr>"

definition travel_env :: geo_env where
  "travel_env =
     \<lparr>geoip_reader = None,
      http_get = (\<lambda>ip. if ip = ''203.0.113.20''
                      then HttpResponse 200 (Some \<lparr>api_status = Some ''success'',
                                                  api_location = equator\<rparr>)
                      else HttpRaises)\<rparr>"

definition travel_previous :: log_entry where
  "travel_previous =
     (entry 1 1714564800000000 ''198.51.100.10'' ''alice'' ''login'' ''success'')
       \<lparr>country_code := Some ''RU'', latitude := Some 60, longitude := Some 102\<rparr>"

definition travel_event :: log_entry where
  "travel_event =
     (entry 2 1714566600000000 ''203.0.113.20'' ''alice'' ''login'' ''success'')
       \<lparr>country_code := Some ''EC'', latitude := Some 0, longitude := Some (- 78)\<rparr>"

definition travel_db :: db where
  "travel_db = \<lparr>log_entries = [travel_previous, travel_event], alerts = []\<rparr>"

text \<open>
  The same pair with the earlier login stored on the Greenwich meridian (60 N 0 E) and
  the later one resolved to 30 S 100 E.
\<close>

definition meridian_previous :: log_entry where
  "meridian_previous = travel_previous\<lparr>country_code := Some ''GB'', longitude := Some 0\<rparr>"

definition meridian_env :: geo_env where
  "meridian_env =
     \<lparr>geoip_reader = None,
      http_get = (\<lambda>ip. HttpResponse 200
                      (Some \<lparr>api_status = Some ''success'',
                             api_location = equator\<lparr>loc_latitude := Some (- 30),
                                                    loc_longitude := Some 100\<rparr>\<rparr>))\<rparr>"

definition meridian_db :: db where
  "meridian_db = \<lparr>log_entries = [meridian_previous, travel_event], alerts = []\<rparr>"

text \<open>A request to \<open>/api/logs/single\<close> with upper-case letters in two fields.\<close>

definition upper_case_request :: log_data where
  "upper_case_request =
     \<lparr>req_timestamp = None, req_source_ip = ''203.0.113.7'', req_username = Some ''bob'',
      req_event_type = ''Login'', req_status = ''FAILED'', req_raw_log = None\<rparr>"

section \<open>Theorems\<close>

subsection \<open>Business hours\<close>

lemma weekday_range: "0 \<le> weekday t \<and> weekday t < 7"
  by (simp add: weekday_def)

text \<open>
  Claim C7. For every instant \<open>t\<close> and hours \<open>start < end\<close>, \<open>is_business_hours\<close> is
  false when \<open>t\<close> falls on a Saturday (weekday 5) or a Sunday (weekday 6), and on the
  other days it is true exactly when \<open>start \<le> t.hour < end\<close>.
\<close>

theorem is_business_hours_spec:
  assumes "start < end"
  shows "(weekday t = 5 \<or> weekday t = 6 \<longrightarrow> \<not> is_business_hours t start end)
       \<and> (weekday t \<noteq> 5 \<and> weekday t \<noteq> 6 \<longrightarrow>
            (is_business_hours t start end \<longleftrightarrow> start \<le> hour t \<and> hour t < end))"
proof -
  have "weekday t < 7" using weekday_range by simp
  then show ?thesis
    unfolding is_business_hours_def by auto
qed

text \<open>
  The rule at 03:15 on Thursday 2024-05-02 (outside 8 to 18, so not business hours), at
  10:15 the same day (business hours), and at 10:15 on Saturday 2024-05-04.
\<close>

theorem is_business_hours_spec_witness:
  "(8::int) < 18
   \<and> weekday 1714619700000000 = 3 \<and> hour 1714619700000000 = 3
   \<and> \<not> is_business_hours 1714619700000000 8 18
   \<and> weekday 1714644900000000 = 3 \<and> hour 1714644900000000 = 10
   \<and> is_business_hours 1714644900000000 8 18
   \<and> weekday 1714817700000000 = 5 \<and> hour 1714817700000000 = 10
   \<and> \<not> is_business_hours 1714817700000000 8 18"
  using is_business_hours_spec [of 8 18 1714619700000000]
    is_business_hours_spec [of 8 18 1714644900000000]
    is_business_hours_spec [of 8 18 1714817700000000]
  by (simp add: weekday_def hour_def)

subsection \<open>Great-circle distance\<close>

lemma sin_half_sq: "(sin (x / 2))\<^sup>2 = (1 - cos (x::real)) / 2"
  using cos_double_sin [of "x / 2"] by simp

lemma haversine_a_alt:
  "haversine_a lat1 lon1 lat2 lon2 =
     (1 - cos (radians lat2 - radians lat1)) / 2
       + cos (radians lat1) * cos (radians lat2) * (sin (radians (lon2 - lon1) / 2))\<^sup>2"
proof -
  have "radians (lat2 - lat1) = radians lat2 - radians lat1"
    by (simp add: radians_def diff_divide_distrib left_diff_distrib)
  then show ?thesis
    by (simp add: haversine_a_def Let_def sin_half_sq)
qed

lemma haversine_a_sym: "haversine_a lat1 lon1 lat2 lon2 = haversine_a lat2 lon2 lat1 lon1"
proof -
  have d: "radians (lon1 - lon2) / 2 = - (radians (lon2 - lon1) / 2)"
    by (simp add: radians_def left_diff_distrib diff_divide_distrib)
  have c: "cos (radians lat1 - radians lat2) = cos (radians lat2 - radians lat1)"
    using cos_minus [of "radians lat2 - radians lat1"] by simp
  show ?thesis
    unfolding haversine_a_alt d c by (simp add: mult.commute)
qed

lemma haversine_a_range:
  "0 \<le> haversine_a lat1 lon1 lat2 lon2 \<and> haversine_a lat1 lon1 lat2 lon2 \<le> 1"
proof -
  define p where "p = radians lat1"
  define q where "q = radians lat2"
  define s where "s = (sin (radians (lon2 - lon1) / 2))\<^sup>2"
  define C where "C = cos p * cos q"
  define S where "S = sin p * sin q"
  have s0: "0 \<le> s" by (simp add: s_def)
  have s1: "s \<le> 1" unfolding s_def using sin_squared_eq [of "radians (lon2 - lon1) / 2"] by simp
  have a: "haversine_a lat1 lon1 lat2 lon2 = (1 - (C + S)) / 2 + C * s"
    unfolding haversine_a_alt C_def S_def s_def p_def q_def
    by (simp add: cos_diff mult.commute)
  have m1: "C + S \<le> 1" using cos_le_one [of "q - p"] by (simp add: cos_diff C_def S_def mult.commute)
  have m2: "- 1 \<le> C + S" using cos_ge_minus_one [of "q - p"] by (simp add: cos_diff C_def S_def mult.commute)
  have p1: "C - S \<le> 1" using cos_le_one [of "p + q"] by (simp add: cos_add C_def S_def)
  have p2: "- 1 \<le> C - S" using cos_ge_minus_one [of "p + q"] by (simp add: cos_add C_def S_def)
  show ?thesis
  proof (cases "0 \<le> C")
    case True
    have "0 \<le> C * s" using True s0 by simp
    moreover have "C * s \<le> C" using True s1 by (simp add: mult_left_le)
    ultimately show ?thesis unfolding a using m1 p1 by (intro conjI) argo+
  next
    case False
    then have "C \<le> 0" by simp
    then have "C * s \<le> 0" using s0 by (simp add: mult_nonpos_nonneg)
    moreover have "C \<le> C * s" using \<open>C \<le> 0\<close> s1 s0
      by (metis mult.right_neutral mult_left_mono_neg)
    ultimately show ?thesis unfolding a using m2 p2 by (intro conjI) argo+
  qed
qed

lemma atan2_nonneg: "0 \<le> y \<Longrightarrow> 0 \<le> x \<Longrightarrow> 0 \<le> atan2 y x"
  by (auto simp: atan2_def)

lemma calculate_distance_eq:
  "calculate_distance lat1 lon1 lat2 lon2 =
     Inr (6371 * (2 * atan2 (sqrt (haversine_a lat1 lon1 lat2 lon2))
                          (sqrt (1 - haversine_a lat1 lon1 lat2 lon2))))"
  using haversine_a_range [of lat1 lon1 lat2 lon2]
  by (simp add: calculate_distance_def central_angle_def py_sqrt_def Let_def)

lemma haversine_a_same: "haversine_a lat lon lat lon = 0"
  by (simp add: haversine_a_def radians_def)

text \<open>
  In exact arithmetic \<open>calculate_distance\<close> returns a number for all coordinate pairs
  (neither square root raises), the distances from \<open>A\<close> to \<open>B\<close> and from \<open>B\<close> to \<open>A\<close>
  are equal, the distance is not negative, and the distance from \<open>A\<close> to \<open>A\<close> is 0.
\<close>

lemma calculate_distance_exact:
  "(\<exists>d1 d2. calculate_distance lat1 lon1 lat2 lon2 = Inr d1
        \<and> calculate_distance lat2 lon2 lat1 lon1 = Inr d2
        \<and> \<bar>d1 - d2\<bar> \<le> 1 / 1000000 \<and> 0 \<le> d1)
   \<and> calculate_distance lat1 lon1 lat1 lon1 = Inr 0"
proof -
  let ?a = "haversine_a lat1 lon1 lat2 lon2"
  have r: "0 \<le> ?a \<and> ?a \<le> 1" by (rule haversine_a_range)
  have "0 \<le> atan2 (sqrt ?a) (sqrt (1 - ?a))"
    using r by (intro atan2_nonneg) simp_all
  then have nn: "0 \<le> 6371 * (2 * atan2 (sqrt ?a) (sqrt (1 - ?a)))" by simp
  have same: "calculate_distance lat1 lon1 lat1 lon1 = Inr 0"
    by (simp add: calculate_distance_eq haversine_a_same atan2_def)
  show ?thesis
    using nn same
    by (simp add: calculate_distance_eq haversine_a_sym [of lat2 lon2 lat1 lon1])
qed

text \<open>
  Claim C9. \<open>calculate_distance\<close> should return a non-negative number for all coordinate
  pairs. The program computes in binary64, where the rounded term \<open>a\<close> can exceed 1: for
  the antipodal points (8, 0) and (-8, 180) the two summands are
  0.019369152030840567 and 0.9806308479691596, and their sum rounds to \<open>1 + 2^-52\<close>. At
  that value \<open>1 - a\<close> is negative and \<open>math.sqrt\<close> raises \<open>ValueError\<close>: no number is
  returned. (Rounding itself is outside the model; the sum of the two summands as
  printed is already more than 1.)
\<close>

theorem calculate_distance_domain_error:
  "central_angle (1 + 1 / 2 ^ 52) = Inl ValueError
   \<and> central_angle (0.019369152030840567 + 0.9806308479691596 * 1.0) = Inl ValueError"
  by (simp add: central_angle_def py_sqrt_def)

subsection \<open>Strings and queries\<close>




lemma first_alert_None_iff: "first_alert flt d = None \<longleftrightarrow> \<not> (\<exists>a \<in> set (alerts d). flt a)"
  by (auto simp: first_alert_def find_None_iff)

subsection \<open>Brute-force rule\<close>






subsection \<open>Privilege-escalation rule\<close>







subsection \<open>Alert lifecycle\<close>

lemma set_update_first: "set (update_first flt f as) \<subseteq> set as \<union> f ` set as"
  by (induction as) auto

lemma acknowledge_ok: "lifecycle_ok a \<Longrightarrow> lifecycle_ok (acknowledge analyst now a)"
  by (simp add: lifecycle_ok_def acknowledge_def)

lemma resolve_ok: "lifecycle_ok a \<Longrightarrow> lifecycle_ok (resolve analyst now now2 a)"
  by (simp add: lifecycle_ok_def resolve_def Let_def)

lemma reachable_ok: "reachable d \<Longrightarrow> \<forall>a \<in> set (alerts d). lifecycle_ok a"
proof (induction rule: reachable.induct)
  case start
  then show ?case by simp
next
  case (after_store d log_entry)
  then show ?case by (simp add: add_and_flush_def Let_def)
next
  case (after_create d rule sev descr ctx log_entry src_ip user new_id now)
  then show ?case by (auto simp: create_alert_def Let_def lifecycle_ok_def)
next
  case (after_acknowledge d aid analyst now)
  then show ?case
    using set_update_first [of "\<lambda>a. alert_id a = aid" "acknowledge analyst now" "alerts d"]
    by (auto simp: acknowledge_alert_def Let_def dest: acknowledge_ok)
next
  case (after_resolve d aid analyst now now2)
  then show ?case
    using set_update_first [of "\<lambda>a. alert_id a = aid" "resolve analyst now now2" "alerts d"]
    by (auto simp: resolve_alert_def Let_def dest: resolve_ok)
qed

lemma find_update_first:
  "(\<And>a. flt a \<Longrightarrow> flt (f a)) \<Longrightarrow> find flt (update_first flt f as) = map_option f (find flt as)"
  by (induction as) auto

lemma resolve_alert_result:
  "snd (resolve_alert aid d analyst now now2)
     = map_option (resolve analyst now now2) (first_alert (\<lambda>a. alert_id a = aid) d)"
  unfolding resolve_alert_def Let_def first_alert_def
  by (simp add: find_update_first resolve_def Let_def)

text \<open>
  Claim C6. In every reachable store each alert satisfies: resolved implies
  acknowledged, resolved implies \<open>resolved_at\<close> is set, acknowledged implies
  \<open>acknowledged_at\<close> is set. And \<open>resolve_alert\<close> on an alert that is not acknowledged
  returns it resolved and acknowledged, with \<open>acknowledged_by\<close> the analyst (or
  \<open>System\<close>) and \<open>acknowledged_at\<close> the clock reading.
\<close>

theorem alert_lifecycle_invariant:
  assumes "reachable d"
  shows "(\<forall>a \<in> set (alerts d).
            (resolved a \<longrightarrow> acknowledged a)
            \<and> (resolved a \<longrightarrow> resolved_at a \<noteq> None)
            \<and> (acknowledged a \<longrightarrow> acknowledged_at a \<noteq> None))
       \<and> (\<forall>a. first_alert (\<lambda>a. alert_id a = aid) d = Some a \<and> \<not> acknowledged a \<longrightarrow>
              (\<exists>a'. snd (resolve_alert aid d analyst now now2) = Some a'
                  \<and> resolved a' \<and> resolved_at a' = Some now
                  \<and> acknowledged a'
                  \<and> acknowledged_by a' = Some (case analyst of
                         None \<Rightarrow> ''System'' | Some n \<Rightarrow> if n = [] then ''System'' else n)
                  \<and> acknowledged_at a' = Some now2))"
proof (intro conjI allI impI)
  show "\<forall>a \<in> set (alerts d).
            (resolved a \<longrightarrow> acknowledged a)
            \<and> (resolved a \<longrightarrow> resolved_at a \<noteq> None)
            \<and> (acknowledged a \<longrightarrow> acknowledged_at a \<noteq> None)"
    using reachable_ok [OF assms] by (simp add: lifecycle_ok_def)
next
  fix a
  assume h: "first_alert (\<lambda>a. alert_id a = aid) d = Some a \<and> \<not> acknowledged a"
  then have "a \<in> set (alerts d)"
    by (auto simp: first_alert_def find_Some_iff)
  then have "lifecycle_ok a" using reachable_ok [OF assms] by blast
  then have n: "acknowledged_at a = None" using h by (simp add: lifecycle_ok_def)
  have "snd (resolve_alert aid d analyst now now2) = Some (resolve analyst now now2 a)"
    using h by (simp add: resolve_alert_result)
  then show "\<exists>a'. snd (resolve_alert aid d analyst now now2) = Some a'
                  \<and> resolved a' \<and> resolved_at a' = Some now
                  \<and> acknowledged a'
                  \<and> acknowledged_by a' = Some (case analyst of
                         None \<Rightarrow> ''System'' | Some n \<Rightarrow> if n = [] then ''System'' else n)
                  \<and> acknowledged_at a' = Some now2"
    using n
    by (auto simp: resolve_def Let_def analyst_or_system_def or_else_def truthy_str_def
             split: option.splits)
qed

lemma one_alert_db_alerts:
  "alerts one_alert_db =
     [\<lparr>alert_id = ''a1'', rule_name = ''brute_force_login'', severity = ''High'',
       alert_description = [Lit ''Brute-force login attempt''],
       alert_context = Some [(''source_ip'', JStr ''203.0.113.7'')],
       alert_source_ip = Some ''203.0.113.7'', alert_username = None, log_entry_id = None,
       triggered_at = 100, acknowledged = False, acknowledged_by = None,
       acknowledged_at = None, resolved = False, resolved_by = None, resolved_at = None,
       alert_notes = None\<rparr>]"
  by (simp add: one_alert_db_def create_alert_def empty_db_def Let_def)

text \<open>
  An alert that is created and then resolved by \<open>carol\<close> at time 200: the store is
  reachable, and the alert comes back acknowledged by \<open>carol\<close>.
\<close>

theorem alert_lifecycle_invariant_witness:
  "reachable one_alert_db
   \<and> (\<exists>a. first_alert (\<lambda>a. alert_id a = ''a1'') one_alert_db = Some a \<and> \<not> acknowledged a)
   \<and> (\<exists>a'. snd (resolve_alert ''a1'' one_alert_db (Some ''carol'') 200 201) = Some a'
          \<and> resolved a' \<and> resolved_at a' = Some 200 \<and> acknowledged a'
          \<and> acknowledged_by a' = Some ''carol'' \<and> acknowledged_at a' = Some 201)
   \<and> reachable (fst (resolve_alert ''a1'' one_alert_db (Some ''carol'') 200 201))
   \<and> (\<exists>a. a \<in> set (alerts (fst (resolve_alert ''a1'' one_alert_db (Some ''carol'') 200 201)))
          \<and> resolved a \<and> acknowledged a \<and> resolved_at a \<noteq> None
          \<and> acknowledged_at a \<noteq> None)"
proof -
  let ?d = "fst (resolve_alert ''a1'' one_alert_db (Some ''carol'') 200 201)"
  have "reachable empty_db" unfolding empty_db_def by (rule reachable.start)
  then have r1: "reachable one_alert_db"
    unfolding one_alert_db_def by (rule reachable.after_create)
  then have r2: "reachable ?d"
    by (rule reachable.after_resolve)
  have f: "\<exists>a. first_alert (\<lambda>a. alert_id a = ''a1'') one_alert_db = Some a \<and> \<not> acknowledged a"
    by (simp add: first_alert_def one_alert_db_alerts)
  from alert_lifecycle_invariant [OF r1, of "''a1''" "Some ''carol''" 200 201] f
  have g: "\<exists>a'. snd (resolve_alert ''a1'' one_alert_db (Some ''carol'') 200 201) = Some a'
          \<and> resolved a' \<and> resolved_at a' = Some 200 \<and> acknowledged a'
          \<and> acknowledged_by a' = Some ''carol'' \<and> acknowledged_at a' = Some 201"
    by auto
  have "\<exists>a. a \<in> set (alerts ?d) \<and> resolved a"
    by (simp add: resolve_alert_def Let_def one_alert_db_alerts resolve_def)
  then obtain a where m: "a \<in> set (alerts ?d)" and ra: "resolved a" by blast
  from alert_lifecycle_invariant [OF r2, of "''a1''" None 0 0]
  have "\<forall>a \<in> set (alerts ?d).
         (resolved a \<longrightarrow> acknowledged a)
         \<and> (resolved a \<longrightarrow> resolved_at a \<noteq> None)
         \<and> (acknowledged a \<longrightarrow> acknowledged_at a \<noteq> None)"
    by (rule conjunct1)
  then have "acknowledged a \<and> resolved_at a \<noteq> None \<and> acknowledged_at a \<noteq> None"
    using m ra by blast
  then have h: "\<exists>a. a \<in> set (alerts ?d) \<and> resolved a \<and> acknowledged a
      \<and> resolved_at a \<noteq> None \<and> acknowledged_at a \<noteq> None"
    using m ra by blast
  show ?thesis using r1 r2 f g h by (intro conjI)
qed




subsection \<open>Impossible-travel rule\<close>

text \<open>
  Claim C10. The rule returns none when the resolved location of the event has
  latitude 0, and when the selected earlier login has latitude 0 or longitude 0.
\<close>

theorem impossible_travel_zero_coordinates:
  "(\<forall>loc. fst (get_location env (source_ip e)) = Inr (Some loc) \<and> loc_latitude loc = Some 0
        \<longrightarrow> impossible_travel_check env e d = Inr None)
   \<and> (\<forall>cur p. fst (get_location env (source_ip e)) = Inr cur
          \<and> previous_login_query e (timestamp e - hours 1) d = Some p
          \<and> (latitude p = Some 0 \<or> longitude p = Some 0)
        \<longrightarrow> impossible_travel_check env e d = Inr None)"
  by (auto simp: impossible_travel_check_def truthy_num_def Let_def split: option.splits)

text \<open>
  The two logins of \<open>alice\<close>: with the later one resolved to latitude 0, and with the
  earlier one stored at longitude 0, the rule returns none.
\<close>

theorem impossible_travel_zero_coordinates_witness:
  "fst (get_location travel_env (source_ip travel_event)) = Inr (Some equator)
   \<and> loc_latitude equator = Some 0
   \<and> impossible_travel_check travel_env travel_event travel_db = Inr None
   \<and> previous_login_query travel_event (timestamp travel_event - hours 1) meridian_db
        = Some meridian_previous
   \<and> latitude meridian_previous = Some 60 \<and> longitude meridian_previous = Some 0
   \<and> impossible_travel_check meridian_env travel_event meridian_db = Inr None"
proof -
  have p: "is_private_ip ''203.0.113.20'' = False" by code_simp
  have ip: "source_ip travel_event = ''203.0.113.20''"
    by (simp add: travel_event_def entry_def)
  have l: "fst (get_location travel_env (source_ip travel_event)) = Inr (Some equator)"
    unfolding ip using p
    by (simp add: get_location_def travel_env_def api_fallback_def Let_def)
  have z: "loc_latitude equator = Some 0" by (simp add: equator_def)
  have a: "impossible_travel_check travel_env travel_event travel_db = Inr None"
    using impossible_travel_zero_coordinates [of travel_env travel_event travel_db] l z
    by blast
  have l2: "fst (get_location meridian_env (source_ip travel_event))
              = Inr (Some (equator\<lparr>loc_latitude := Some (- 30), loc_longitude := Some 100\<rparr>))"
    unfolding ip using p
    by (simp add: get_location_def meridian_env_def api_fallback_def Let_def)
  have q: "previous_login_query travel_event (timestamp travel_event - hours 1) meridian_db
        = Some meridian_previous"
    by (simp add: previous_login_query_def travel_event_def meridian_db_def
          meridian_previous_def travel_previous_def entry_def hours_def)
  have c: "latitude meridian_previous = Some 60" "longitude meridian_previous = Some 0"
    by (simp_all add: meridian_previous_def travel_previous_def entry_def)
  have b: "impossible_travel_check meridian_env travel_event meridian_db = Inr None"
    using impossible_travel_zero_coordinates [of meridian_env travel_event meridian_db] l2 q c
    by blast
  show ?thesis using l z a q c b by (intro conjI)
qed

text \<open>
  With coordinates that are present and not 0 the rule does what the specification
  says: it triggers exactly when the distance is at least 1000 km, the elapsed hours
  are fewer than distance / 800, and no unresolved alert of the rule for the user was
  triggered in the last hour.
\<close>

lemma impossible_travel_check_nonzero:
  assumes "status e = ''success''" and "event_type e = ''login''"
    and "truthy_str (username e)" and "source_ip e \<noteq> []"
    and "fst (get_location env (source_ip e)) = Inr (Some cur)"
    and "loc_latitude cur = Some lat2" and "lat2 \<noteq> 0" and "loc_longitude cur = Some lon2"
    and "previous_login_query e (timestamp e - hours 1) d = Some p"
    and "latitude p = Some lat1" and "lat1 \<noteq> 0"
    and "longitude p = Some lon1" and "lon1 \<noteq> 0"
    and "calculate_distance lat1 lon1 lat2 lon2 = Inr km"
  shows "(\<exists>r. impossible_travel_check env e d = Inr (Some r)) \<longleftrightarrow>
           1000 \<le> km
           \<and> total_seconds (timestamp e - timestamp p) / 3600 < km / 800
           \<and> \<not> (\<exists>a \<in> set (alerts d). \<not> resolved a
                    \<and> rule_name a = ''impossible_travel''
                    \<and> alert_username a = username e
                    \<and> timestamp e - hours 1 \<le> triggered_at a)"
  using assms
  unfolding impossible_travel_check_def Let_def first_alert_None_iff
  by (auto simp: truthy_num_def)

lemma travel_location:
  "fst (get_location travel_env ''203.0.113.20'') = Inr (Some equator)"
proof -
  have "is_private_ip ''203.0.113.20'' = False" by code_simp
  then show ?thesis
    by (simp add: get_location_def travel_env_def api_fallback_def Let_def)
qed

lemma travel_previous_selected:
  "previous_login_query travel_event (timestamp travel_event - hours 1) travel_db
     = Some travel_previous"
  by (simp add: previous_login_query_def travel_event_def travel_db_def travel_previous_def
        entry_def hours_def)

lemma travel_a: "haversine_a 60 102 0 (- 78) = 3 / 4"
proof -
  have r60: "radians 60 = pi / 3" by (simp add: radians_def)
  have r0: "radians 0 = 0" by (simp add: radians_def)
  have rl: "radians (- 78 - 102) / 2 = - (pi / 2)" by (simp add: radians_def)
  have c: "cos (0 - pi / 3) = 1 / 2" using cos_60 cos_minus [of "pi / 3"] by simp
  show ?thesis
    unfolding haversine_a_alt r60 r0 rl c by (simp add: cos_60)
qed

lemma travel_distance:
  "\<exists>km. calculate_distance 60 102 0 (- 78) = Inr km \<and> 1000 \<le> km"
proof -
  have s1: "sqrt (1 - 3 / 4) = 1 / 2"
    using real_sqrt_abs [of "1 / 2"] by (simp add: power2_eq_square)
  have "1 \<le> sqrt (3 / 4) / (1 / 2)"
  proof -
    have "sqrt (1 / 4) \<le> sqrt (3 / 4)" by (rule real_sqrt_le_mono) simp
    moreover have "sqrt (1 / 4) = 1 / 2" using s1 by simp
    ultimately show ?thesis by simp
  qed
  then have "arctan 1 \<le> arctan (sqrt (3 / 4) / (1 / 2))"
    by (simp only: arctan_le_iff)
  then have "pi / 4 \<le> atan2 (sqrt (3 / 4)) (1 / 2)"
    by (simp add: atan2_def arctan_one)
  then have "1 / 2 \<le> atan2 (sqrt (3 / 4)) (1 / 2)"
    using pi_ge_two by linarith
  then have "1000 \<le> 6371 * (2 * atan2 (sqrt (3 / 4)) (1 / 2))" by simp
  then show ?thesis
    unfolding calculate_distance_eq travel_a s1 by simp
qed

text \<open>
  Claim C2. For a successful login with a username and an address whose location
  resolves with a latitude, and an earlier login selected with stored coordinates, the
  rule should trigger exactly when the distance is at least 1000 km and the elapsed
  hours are fewer than distance / 800 (no alert being open). The code does not: for the
  two logins of \<open>alice\<close>, 60 N 102 E and then 0 N 78 W half an hour later, the distance
  is more than 1000 km, no alert is stored, and the rule returns none, because the
  latitude 0 of the resolved location is taken for a missing one.
\<close>

theorem impossible_travel_equator_missed:
  "status travel_event = ''success'' \<and> event_type travel_event = ''login''
   \<and> username travel_event = Some ''alice'' \<and> source_ip travel_event = ''203.0.113.20''
   \<and> fst (get_location travel_env (source_ip travel_event)) = Inr (Some equator)
   \<and> loc_latitude equator = Some 0 \<and> loc_longitude equator = Some (- 78)
   \<and> previous_login_query travel_event (timestamp travel_event - hours 1) travel_db
        = Some travel_previous
   \<and> source_ip travel_previous = ''198.51.100.10''
   \<and> latitude travel_previous = Some 60 \<and> longitude travel_previous = Some 102
   \<and> (\<exists>km. calculate_distance 60 102 0 (- 78) = Inr km \<and> 1000 \<le> km
          \<and> total_seconds (timestamp travel_event - timestamp travel_previous) / 3600
              < km / 800)
   \<and> alerts travel_db = []
   \<and> impossible_travel_check travel_env travel_event travel_db = Inr None"
proof -
  have f: "status travel_event = ''success''" "event_type travel_event = ''login''"
    "username travel_event = Some ''alice''" "source_ip travel_event = ''203.0.113.20''"
    "source_ip travel_previous = ''198.51.100.10''"
    "latitude travel_previous = Some 60" "longitude travel_previous = Some 102"
    "alerts travel_db = []" "loc_latitude equator = Some 0" "loc_longitude equator = Some (- 78)"
    by (simp_all add: travel_event_def travel_previous_def travel_db_def entry_def equator_def)
  have l: "fst (get_location travel_env (source_ip travel_event)) = Inr (Some equator)"
    unfolding f by (rule travel_location)
  obtain km where km: "calculate_distance 60 102 0 (- 78) = Inr km" "1000 \<le> km"
    using travel_distance by blast
  have "total_seconds (timestamp travel_event - timestamp travel_previous) / 3600 = 1 / 2"
    by (simp add: travel_event_def travel_previous_def entry_def total_seconds_def)
  moreover have "1 / 2 < km / 800" using km(2) by simp
  ultimately have d: "\<exists>km. calculate_distance 60 102 0 (- 78) = Inr km \<and> 1000 \<le> km
          \<and> total_seconds (timestamp travel_event - timestamp travel_previous) / 3600
              < km / 800"
    using km by auto
  have c: "impossible_travel_check travel_env travel_event travel_db = Inr None"
    using l f by (simp add: impossible_travel_check_def truthy_str_def truthy_num_def)
  show ?thesis
    using f l travel_previous_selected d c by (intro conjI)
qed

text \<open>
  In short: the distance is more than 1000 km, yet the rule returns none.
\<close>

theorem impossible_travel_equator_missed_witness:
  "(\<exists>km. calculate_distance 60 102 0 (- 78) = Inr km \<and> 1000 \<le> km)
   \<and> impossible_travel_check travel_env travel_event travel_db = Inr None"
  using impossible_travel_equator_missed by blast

subsection \<open>Lower-case fields\<close>

lemma lower_char_idem: "lower_char (lower_char c) = lower_char c"
proof -
  have "of_char c < (256::nat)" by simp
  then show ?thesis
    unfolding lower_char_def by (auto simp: of_char_of)
qed

lemma lower_idem: "lower (lower s) = lower s"
  by (simp add: lower_def lower_char_idem)

text \<open>
  The line parser stores \<open>status\<close> and \<open>event_type\<close> in lower case.
\<close>

lemma parse_line_lowercase:
  assumes "parse_line penv env now line src_file = Inr (Some e)"
  shows "is_lowercase (status e) \<and> is_lowercase (event_type e)"
  using assms
  by (auto simp: parse_line_def Let_def is_lowercase_def lower_idem
           split: option.splits if_splits sum.splits)

lemma log_entries_create_alerts:
  "log_entries (create_alerts fresh now e ads d) = log_entries d"
  by (induction ads arbitrary: d) (simp_all add: create_alert_def Let_def)

lemma log_entries_store_and_detect:
  "log_entries (fst (store_and_detect cfg env fresh now e d))
     = log_entries d @ [e\<lparr>entry_id := Some (int (length (log_entries d)) + 1)\<rparr>]"
  by (simp add: store_and_detect_def add_and_flush_def Let_def log_entries_create_alerts)

text \<open>
  So does \<open>ingest_logs_from_text\<close>: it stores what \<open>parse_line\<close> returns.
\<close>

lemma ingest_lines_lowercase:
  assumes "ingest_lines cfg penv env fresh now src_file lines d n k = Inr (d', n', k')"
    and "\<forall>e \<in> set (log_entries d). is_lowercase (status e) \<and> is_lowercase (event_type e)"
  shows "\<forall>e \<in> set (log_entries d'). is_lowercase (status e) \<and> is_lowercase (event_type e)"
  using assms
proof (induction lines arbitrary: d n k)
  case Nil
  then show ?case by simp
next
  case (Cons line rest)
  show ?case
  proof (cases "strip line = []")
    case True
    then have "ingest_lines cfg penv env fresh now src_file rest d n k = Inr (d', n', k')"
      using Cons.prems(1) by simp
    then show ?thesis using Cons.IH Cons.prems(2) by blast
  next
    case False
    show ?thesis
    proof (cases "parse_line penv env now line src_file")
      case (Inl err)
      then show ?thesis using Cons.prems False by simp
    next
      case (Inr res)
      show ?thesis
      proof (cases res)
        case None
        then have "ingest_lines cfg penv env fresh now src_file rest d n k = Inr (d', n', k')"
          using Cons.prems(1) Inr False by simp
        then show ?thesis using Cons.IH Cons.prems(2) by blast
      next
        case (Some e)
        let ?sd = "store_and_detect cfg env fresh now e d"
        have low: "is_lowercase (status e) \<and> is_lowercase (event_type e)"
          using parse_line_lowercase Inr Some by blast
        have step: "ingest_lines cfg penv env fresh now src_file rest (fst ?sd)
                      (n + 1) (k + snd (snd ?sd)) = Inr (d', n', k')"
          using Cons.prems(1) False Inr Some by (simp add: split_beta)
        have "\<forall>x \<in> set (log_entries (fst ?sd)).
                 is_lowercase (status x) \<and> is_lowercase (event_type x)"
          using Cons.prems(2) low by (auto simp: log_entries_store_and_detect)
        then show ?thesis using Cons.IH [OF step] by blast
      qed
    qed
  qed
qed

text \<open>
  Claim C3. Every ingestion path should store \<open>status\<close> and \<open>event_type\<close> in lower case.
  \<open>ingest_single_log\<close> does not: it stores the two fields of the request as they come,
  here \<open>FAILED\<close> and \<open>Login\<close>.
\<close>

theorem ingest_single_log_keeps_case:
  "\<exists>d' r. ingest_single_log cfg penv offline_env fresh now upper_case_request empty_db
            = Inr (d', r)
     \<and> map status (log_entries d') = [''FAILED'']
     \<and> map event_type (log_entries d') = [''Login'']
     \<and> \<not> is_lowercase ''FAILED'' \<and> \<not> is_lowercase ''Login''"
proof -
  have p: "is_private_ip ''203.0.113.7'' = False" by code_simp
  have l: "fst (get_location offline_env ''203.0.113.7'') = Inr None"
    using p by (simp add: get_location_def offline_env_def api_fallback_def Let_def)
  have u: "\<not> is_lowercase ''FAILED''" "\<not> is_lowercase ''Login''"
    by code_simp+
  let ?e = "\<lparr>entry_id = None, timestamp = now, source_ip = ''203.0.113.7'',
             username = Some ''bob'', event_type = ''Login'', status = ''FAILED'',
             raw_log = None, source_file = None, country_code = None, latitude = None,
             longitude = None\<rparr>"
  let ?sd = "store_and_detect cfg offline_env fresh now ?e empty_db"
  let ?r = "\<lparr>ingested = 1, alerts_generated = snd (snd ?sd),
             result_log_entry_id = entry_id (fst (snd ?sd))\<rparr>"
  have i: "ingest_single_log cfg penv offline_env fresh now upper_case_request empty_db
         = Inr (fst ?sd, ?r)"
    using l by (simp add: ingest_single_log_def upper_case_request_def Let_def split_beta)
  have st: "map status (log_entries (fst ?sd)) = [''FAILED'']"
    and et: "map event_type (log_entries (fst ?sd)) = [''Login'']"
    by (simp_all add: log_entries_store_and_detect empty_db_def)
  show ?thesis
    apply (rule exI [of _ "fst ?sd"])
    apply (rule exI [of _ ?r])
    using i st et u by (intro conjI)
qed

subsection \<open>Private addresses and exceptions of the resolver\<close>

lemma split_on_nosep: "sep \<notin> set a \<Longrightarrow> split_on sep a = [a]"
  by (induction a) auto

lemma split_on_append:
  "sep \<notin> set a \<Longrightarrow> split_on sep (a @ sep # rest) = a # split_on sep rest"
  by (induction a) auto

lemma digit_not_dot: "is_digit ch \<Longrightarrow> ch \<noteq> CHR ''.''"
  by (auto simp: is_digit_def)

lemma digits_no_dot: "list_all is_digit s \<Longrightarrow> CHR ''.'' \<notin> set s"
  using digit_not_dot by (auto simp: list_all_iff)

lemma digit_not_space: "is_digit ch \<Longrightarrow> \<not> is_int_space ch"
  by (auto simp: is_digit_def is_int_space_def)

lemma strip_digits: "list_all is_digit s \<Longrightarrow> strip_with is_int_space s = s"
proof (cases s rule: rev_cases)
  case Nil
  then show ?thesis by (simp add: strip_with_def)
next
  case (snoc ys y)
  assume a: "list_all is_digit s"
  then have "\<not> is_int_space y" using snoc digit_not_space by auto
  moreover have "dropWhile is_int_space s = s"
    using a digit_not_space by (cases s) auto
  ultimately show ?thesis using snoc by (simp add: strip_with_def)
qed

lemma digits_acc_Some: "list_all is_digit s \<Longrightarrow> \<exists>m. digits_acc n s = Some m"
  by (induction n s rule: digits_acc.induct) auto

lemma py_int_digits:
  assumes "list_all is_digit s" and "s \<noteq> []" and "length s \<le> 3"
  shows "\<exists>n. py_int s = Some n"
proof -
  obtain ch cs where s: "s = ch # cs" using assms(2) by (cases s) auto
  then have d: "is_digit ch" and ds: "list_all is_digit cs" using assms(1) by auto
  have sg: "ch \<noteq> CHR ''-''" "ch \<noteq> CHR ''+''" using d by (auto simp: is_digit_def)
  have "filter is_digit s = s" using assms(1) by (simp add: list_all_iff)
  then have few: "\<not> max_str_digits < length (filter is_digit (ch # cs))"
    using assms(3) s by (simp add: max_str_digits_def)
  obtain m where m: "digits_acc (digit_val ch) cs = Some m"
    using digits_acc_Some [OF ds] by blast
  have "strip_with is_int_space s = ch # cs" using strip_digits [OF assms(1)] s by simp
  then show ?thesis
    using sg few d m by (simp add: py_int_def digits_value_def Let_def)
qed

lemma split_on_quad:
  assumes "list_all is_digit a" and "list_all is_digit b"
    and "list_all is_digit c" and "list_all is_digit dd"
  shows "split_on CHR ''.'' (a @ ''.'' @ b @ ''.'' @ c @ ''.'' @ dd) = [a, b, c, dd]"
  using assms by (simp add: split_on_append split_on_nosep digits_no_dot)

lemma is_private_ip_quad:
  assumes "list_all is_digit a" and "list_all is_digit b"
    and "list_all is_digit c" and "list_all is_digit dd"
    and "py_int a = Some x" and "py_int b = Some y"
  shows "is_private_ip (a @ ''.'' @ b @ ''.'' @ c @ ''.'' @ dd) \<longleftrightarrow>
           x = 10 \<or> (x = 172 \<and> 16 \<le> y \<and> y \<le> 31) \<or> (x = 192 \<and> y = 168) \<or> x = 127"
  unfolding is_private_ip_def split_on_quad [OF assms(1-4)] Let_def
  using assms(5,6) by simp

lemma py_int_first_octets:
  "py_int ''10'' = Some 10" "py_int ''127'' = Some 127"
  "py_int ''172'' = Some 172" "py_int ''192'' = Some 192" "py_int ''168'' = Some 168"
  by code_simp+

lemma py_int_second_octets:
  "py_int ''16'' = Some 16" "py_int ''17'' = Some 17" "py_int ''18'' = Some 18"
  "py_int ''19'' = Some 19" "py_int ''20'' = Some 20" "py_int ''21'' = Some 21"
  "py_int ''22'' = Some 22" "py_int ''23'' = Some 23" "py_int ''24'' = Some 24"
  "py_int ''25'' = Some 25" "py_int ''26'' = Some 26" "py_int ''27'' = Some 27"
  "py_int ''28'' = Some 28" "py_int ''29'' = Some 29" "py_int ''30'' = Some 30"
  "py_int ''31'' = Some 31"
  by code_simp+

lemma digits_first_octets:
  "list_all is_digit ''10''" "list_all is_digit ''127''" "list_all is_digit ''172''"
  "list_all is_digit ''192''" "list_all is_digit ''168''"
  by code_simp+

lemma api_fallback_total: "\<exists>r. fst (api_fallback env s tr) = Inr r"
  by (auto simp: api_fallback_def Let_def split: http_outcome.splits option.splits)

text \<open>
  For a dotted quad in 10.0.0.0/8, 127.0.0.0/8, 192.168.0.0/16 or 172.16.0.0/12 (the
  second octet of one to three digits), \<open>get_location\<close> returns none and looks nothing
  up. And \<open>get_location\<close> raises on no input string when the database reader, if there
  is one, raises nothing but \<open>AddressNotFoundError\<close> and \<open>ValueError\<close>.
\<close>

lemma get_location_private_or_guarded:
  "(list_all is_digit b \<and> b \<noteq> [] \<and> length b \<le> 3
      \<and> list_all is_digit c \<and> list_all is_digit dd
      \<and> (a = ''10'' \<or> a = ''127'' \<or> (a = ''192'' \<and> b = ''168'')
          \<or> (a = ''172'' \<and> b \<in> {''16'', ''17'', ''18'', ''19'', ''20'', ''21'', ''22'', ''23'',
                 ''24'', ''25'', ''26'', ''27'', ''28'', ''29'', ''30'', ''31''}))
      \<longrightarrow> get_location env (a @ ''.'' @ b @ ''.'' @ c @ ''.'' @ dd) = (Inr None, []))
   \<and> ((\<forall>city s e. geoip_reader env = Some city \<and> city s = DbRaises e
            \<longrightarrow> e = AddressNotFoundError \<or> e = ValueError)
        \<longrightarrow> (\<forall>s. \<exists>r. fst (get_location env s) = Inr r))"
proof (intro conjI impI)
  assume h: "list_all is_digit b \<and> b \<noteq> [] \<and> length b \<le> 3
      \<and> list_all is_digit c \<and> list_all is_digit dd
      \<and> (a = ''10'' \<or> a = ''127'' \<or> (a = ''192'' \<and> b = ''168'')
          \<or> (a = ''172'' \<and> b \<in> {''16'', ''17'', ''18'', ''19'', ''20'', ''21'', ''22'', ''23'',
                 ''24'', ''25'', ''26'', ''27'', ''28'', ''29'', ''30'', ''31''}))"
  then have db: "list_all is_digit b" and dc: "list_all is_digit c"
    and ddd: "list_all is_digit dd" and bne: "b \<noteq> []" and bl: "length b \<le> 3"
    by simp_all
  obtain y where y: "py_int b = Some y" using py_int_digits [OF db bne bl] by blast
  from h have dj: "a = ''10'' \<or> a = ''127'' \<or> (a = ''192'' \<and> b = ''168'')
          \<or> (a = ''172'' \<and> b \<in> {''16'', ''17'', ''18'', ''19'', ''20'', ''21'', ''22'', ''23'',
                 ''24'', ''25'', ''26'', ''27'', ''28'', ''29'', ''30'', ''31''})"
    by (elim conjE)
  have da: "list_all is_digit a"
    using dj by (elim disjE conjE) (simp_all only: digits_first_octets)
  have "is_private_ip (a @ ''.'' @ b @ ''.'' @ c @ ''.'' @ dd)"
    using dj
  proof (elim disjE conjE)
    assume 1: "a = ''10''"
    have "py_int a = Some 10" unfolding 1 by (rule py_int_first_octets)
    from is_private_ip_quad [OF da db dc ddd this y] show ?thesis by simp
  next
    assume 2: "a = ''127''"
    have "py_int a = Some 127" unfolding 2 by (rule py_int_first_octets)
    from is_private_ip_quad [OF da db dc ddd this y] show ?thesis by simp
  next
    assume 3: "a = ''192''" and 4: "b = ''168''"
    have "py_int a = Some 192" unfolding 3 by (rule py_int_first_octets)
    moreover have "py_int b = Some 168" unfolding 4 by (rule py_int_first_octets)
    ultimately show ?thesis using is_private_ip_quad [OF da db dc ddd] by simp
  next
    assume 5: "a = ''172''"
      and 6: "b \<in> {''16'', ''17'', ''18'', ''19'', ''20'', ''21'', ''22'', ''23'',
                 ''24'', ''25'', ''26'', ''27'', ''28'', ''29'', ''30'', ''31''}"
    have "py_int a = Some 172" unfolding 5 by (rule py_int_first_octets)
    moreover have "\<exists>z. py_int b = Some z \<and> 16 \<le> z \<and> z \<le> 31"
      using 6 by (elim insertE emptyE) (simp_all only: py_int_second_octets, simp_all)
    ultimately show ?thesis using is_private_ip_quad [OF da db dc ddd] by auto
  qed
  then show "get_location env (a @ ''.'' @ b @ ''.'' @ c @ ''.'' @ dd) = (Inr None, [])"
    by (simp add: get_location_def)
next
  assume g: "\<forall>city s e. geoip_reader env = Some city \<and> city s = DbRaises e
            \<longrightarrow> e = AddressNotFoundError \<or> e = ValueError"
  show "\<forall>s. \<exists>r. fst (get_location env s) = Inr r"
  proof
    fix s
    show "\<exists>r. fst (get_location env s) = Inr r"
      using g api_fallback_total [of env s "[]"] api_fallback_total [of env s "[DbLookup s]"]
      by (auto simp: get_location_def split: option.splits db_outcome.splits)
  qed
qed

text \<open>
  The three blacklisted addresses of the default settings and the loopback address are
  answered without a lookup, even by a resolver whose database would raise; a database
  that raises \<open>AddressNotFoundError\<close> and a failing HTTP call give none.
\<close>

lemma get_location_examples:
  "get_location wrong_database_env ''10.0.0.100'' = (Inr None, [])
   \<and> get_location wrong_database_env ''172.16.0.50'' = (Inr None, [])
   \<and> get_location wrong_database_env ''192.168.1.200'' = (Inr None, [])
   \<and> get_location wrong_database_env ''127.0.0.1'' = (Inr None, [])
   \<and> (\<exists>r. fst (get_location unknown_address_env ''8.8.8.8'') = Inr r)
   \<and> (\<exists>r. fst (get_location offline_env ''not an address'') = Inr r)"
proof -
  have d: "list_all is_digit ''0''" "list_all is_digit ''100''" "list_all is_digit ''50''"
    "list_all is_digit ''1''" "list_all is_digit ''200''" "list_all is_digit ''168''"
    "list_all is_digit ''16''"
    by code_simp+
  have "get_location wrong_database_env (''10'' @ ''.'' @ ''0'' @ ''.'' @ ''0'' @ ''.'' @ ''100'')
          = (Inr None, [])"
    using get_location_private_or_guarded [of "''0''" "''0''" "''100''" "''10''" wrong_database_env] d
    by simp
  then have a: "get_location wrong_database_env ''10.0.0.100'' = (Inr None, [])" by simp
  have "get_location wrong_database_env (''172'' @ ''.'' @ ''16'' @ ''.'' @ ''0'' @ ''.'' @ ''50'')
          = (Inr None, [])"
    using get_location_private_or_guarded [of "''16''" "''0''" "''50''" "''172''" wrong_database_env] d
    by simp
  then have b: "get_location wrong_database_env ''172.16.0.50'' = (Inr None, [])" by simp
  have "get_location wrong_database_env (''192'' @ ''.'' @ ''168'' @ ''.'' @ ''1'' @ ''.'' @ ''200'')
          = (Inr None, [])"
    using get_location_private_or_guarded [of "''168''" "''1''" "''200''" "''192''" wrong_database_env] d
    by simp
  then have c: "get_location wrong_database_env ''192.168.1.200'' = (Inr None, [])" by simp
  have "get_location wrong_database_env (''127'' @ ''.'' @ ''0'' @ ''.'' @ ''0'' @ ''.'' @ ''1'')
          = (Inr None, [])"
    using get_location_private_or_guarded [of "''0''" "''0''" "''1''" "''127''" wrong_database_env] d
    by simp
  then have e: "get_location wrong_database_env ''127.0.0.1'' = (Inr None, [])" by simp
  have "\<forall>city s e. geoip_reader unknown_address_env = Some city \<and> city s = DbRaises e
            \<longrightarrow> e = AddressNotFoundError \<or> e = ValueError"
    by (auto simp: unknown_address_env_def)
  with get_location_private_or_guarded [of "''0''" "''0''" "''1''" "''127''" unknown_address_env]
  have f: "\<exists>r. fst (get_location unknown_address_env ''8.8.8.8'') = Inr r" by blast
  have "\<forall>city s e. geoip_reader offline_env = Some city \<and> city s = DbRaises e
            \<longrightarrow> e = AddressNotFoundError \<or> e = ValueError"
    by (simp add: offline_env_def)
  with get_location_private_or_guarded [of "''0''" "''0''" "''1''" "''127''" offline_env]
  have g: "\<exists>r. fst (get_location offline_env ''not an address'') = Inr r" by blast
  show ?thesis using a b c e f g by (intro conjI)
qed

text \<open>
  Claim C8. \<open>get_location\<close> should raise on no input string. It does: with a database
  reader whose \<open>city\<close> raises \<open>TypeError\<close>, the call for the public address 8.8.8.8
  raises it after the database lookup. The handler of the database branch names two
  exception classes only, whereas the HTTP branch of the same function and the
  constructor catch every exception.
\<close>

theorem get_location_raises:
  "get_location wrong_database_env ''8.8.8.8'' = (Inl TypeError, [DbLookup ''8.8.8.8''])"
proof -
  have "is_private_ip ''8.8.8.8'' = False" by code_simp
  then show ?thesis by (simp add: get_location_def wrong_database_env_def)
qed

end
